theory Spec2Isabelle
  imports Main "HOL-Library.Word"
begin

unbundle bit_operations_syntax

section \<open>The run command of xray-core (main/run.go)\<close>

text \<open>
  The run command resolves its configuration sources, builds and starts a server,
  watches the configuration files and rebuilds the server when one of them changes.
  Everything the command calls outside run.go (the operating system, the platform
  package, the engine in package core, fsnotify) is a field of the record \<open>world\<close>;
  the package-level variable \<open>configFiles\<close> is passed in and handed back; what the
  command prints and which engine operations it invokes is returned as a list of
  events, in program order; a call of \<open>os.Exit\<close> is the outcome \<open>Exit\<close>.
\<close>

subsection \<open>Data\<close>

type_synonym path = string

type_synonym config = string

text \<open>
  A merged configuration and a server are values of the engine; the program only hands
  them on. A server is known here by the number the engine gives it.
\<close>

datatype server = Server nat

datatype error =
    External string
  | FailedToLoad "path list" error
  | FailedToCreate error

text \<open>
  An operand of a \<open>log\<close> call is a string or an error. An event is a line of the log, a
  call of an operation of the engine, or a value sent on \<open>restartChan\<close>.
\<close>

datatype operand = S string | E error

datatype event =
    Println "operand list"
  | Print "operand list"
  | Fatalln "operand list"
  | PrintVersion
  | CallGetMergedConfig "path list"
  | CallLoadConfig string "path list"
  | CallNew config
  | CallStart server
  | CallClose server
  | SendRestart

datatype 'a outcome = Exit int | Ret 'a

text \<open>
  The flags of the command (lines 50-67). \<open>-config\<close>/\<open>-c\<close> fill the package-level
  variable \<open>configFiles\<close>, which is program state and not part of this record.
\<close>

record flags =
  configDir :: string
  dump :: bool
  test :: bool
  format :: string

text \<open>
  The collaborators. \<open>os_Stat\<close> answers an error or whether the entry is a directory;
  \<open>os_ReadDir\<close> answers an error or the entry names in listing order.
\<close>

record world =
  os_Stat :: "path \<Rightarrow> error + bool"
  os_ReadDir :: "path \<Rightarrow> error + string list"
  os_Getwd :: "error + path"
  path_Join :: "path \<Rightarrow> string \<Rightarrow> path"
  filepath_Join :: "path \<Rightarrow> string \<Rightarrow> path"
  filepath_Abs :: "path \<Rightarrow> error + path"
  platform_GetConfDirPath :: path
  platform_GetConfigurationPath :: path
  core_GetFormatByExtension :: "string \<Rightarrow> string"
  core_GetMergedConfig :: "path list \<Rightarrow> error + string"
  core_LoadConfig :: "string \<Rightarrow> path list \<Rightarrow> error + config"
  core_New :: "config \<Rightarrow> error + server"
  server_Start :: "server \<Rightarrow> error option"
  server_Close :: "server \<Rightarrow> error option"
  fsnotify_NewWatcher :: "error option"
  watcher_Add :: "path \<Rightarrow> error option"

text \<open>
  \<open>log.Fatalln\<close> of Go's standard library prints its operands and calls \<open>os.Exit(1)\<close>.
\<close>

definition log_Fatalln_code :: int where
  "log_Fatalln_code = 1"

text \<open>A line that is printed only when \<open>verbose\<close> is set.\<close>

definition vlog :: "bool \<Rightarrow> event \<Rightarrow> event list" where
  "vlog verbose e = (if verbose then [e] else [])"

subsection \<open>Locating the configuration (lines 224-296)\<close>

definition fileExists :: "world \<Rightarrow> path \<Rightarrow> bool" where
  "fileExists W file = (case os_Stat W file of Inl err \<Rightarrow> False | Inr isDir \<Rightarrow> \<not> isDir)"

definition dirExists :: "world \<Rightarrow> path \<Rightarrow> bool" where
  "dirExists W file =
     (if file = [] then False
      else (case os_Stat W file of Inl err \<Rightarrow> False | Inr isDir \<Rightarrow> isDir))"

text \<open>
  \<open>getRegepxByFormat\<close> is the pattern \<^verbatim>\<open>^.+\.(json|jsonc)$\<close>: the name ends in the
  extension, and what precedes the extension is at least one character, none of them a
  line feed (the dot of Go's regexp does not match one, and the anchors are those of
  the whole text).
\<close>

definition hasExt :: "string \<Rightarrow> string \<Rightarrow> bool" where
  "hasExt ext name =
     (length ext < length name
      \<and> drop (length name - length ext) name = ext
      \<and> CHR 0x0A \<notin> set (take (length name - length ext) name))"

definition matchRegepxByFormat :: "string \<Rightarrow> bool" where
  "matchRegepxByFormat name = (hasExt ''.json'' name \<or> hasExt ''.jsonc'' name)"

text \<open>
  Modelled from the spec: \<open>cmdarg.Arg\<close> and its method \<open>Set\<close> (common/cmdarg) are not
  among the sources. The spec has the explicit paths "accumulated, in command-line
  order", and the usage text of the command says "Multiple assign is accepted": \<open>Set\<close>
  appends its argument.
\<close>

definition Set_arg :: "path list \<Rightarrow> path \<Rightarrow> path list" where
  "Set_arg c v = c @ [v]"

text \<open>
  Lines 61-62 register \<open>configFiles\<close> for the flags \<open>-config\<close> and \<open>-c\<close>: parsing the
  command line calls \<open>Set\<close> once for each value given, in the order of the command
  line. \<open>flagConfigFiles c vs\<close> is \<open>configFiles\<close> after the values \<open>vs\<close>, starting from
  \<open>c\<close>; the variable starts out empty.
\<close>

fun flagConfigFiles :: "path list \<Rightarrow> path list \<Rightarrow> path list" where
  "flagConfigFiles c [] = c"
| "flagConfigFiles c (v # vs) = flagConfigFiles (Set_arg c v) vs"

text \<open>
  The loop of \<open>readConfDir\<close> (lines 246-254) over the listed names. The pattern is a
  constant that compiles, so \<open>regexp.MatchString\<close> returns no error and the
  \<open>log.Fatalln\<close> of line 249 is never reached.
\<close>

fun scanConfs :: "world \<Rightarrow> path \<Rightarrow> string list \<Rightarrow> path list \<Rightarrow> path list" where
  "scanConfs W dirPath [] cf = cf"
| "scanConfs W dirPath (f # confs) cf =
     scanConfs W dirPath confs
       (if matchRegepxByFormat f then Set_arg cf (path_Join W dirPath f) else cf)"

definition readConfDir :: "world \<Rightarrow> path \<Rightarrow> path list \<Rightarrow> event list \<times> path list outcome" where
  "readConfDir W dirPath cf =
     (case os_ReadDir W dirPath of
        Inl err \<Rightarrow> ([Fatalln [E err]], Exit log_Fatalln_code)
      | Inr confs \<Rightarrow> ([], Ret (scanConfs W dirPath confs cf)))"

text \<open>Lines 258-268: the directory of \<open>-confdir\<close>, else the directory of the environment.\<close>

definition scanDirs :: "world \<Rightarrow> flags \<Rightarrow> bool \<Rightarrow> path list \<Rightarrow> event list \<times> path list outcome" where
  "scanDirs W F verbose cf =
     (if dirExists W (configDir F) then
        (case readConfDir W (configDir F) cf of
           (tr, r) \<Rightarrow> (vlog verbose (Println [S ''Using confdir from arg:'', S (configDir F)]) @ tr, r))
      else if dirExists W (platform_GetConfDirPath W) then
        (case readConfDir W (platform_GetConfDirPath W) cf of
           (tr, r) \<Rightarrow>
             (vlog verbose (Println [S ''Using confdir from env:'', S (platform_GetConfDirPath W)])
                @ tr, r))
      else ([], Ret cf))"

text \<open>Lines 285-295: the file of the environment, else standard input.\<close>

definition envOrStdin :: "world \<Rightarrow> bool \<Rightarrow> event list \<times> path list" where
  "envOrStdin W verbose =
     (if fileExists W (platform_GetConfigurationPath W) then
        (vlog verbose (Println [S ''Using config from env: '', S (platform_GetConfigurationPath W)]),
         [platform_GetConfigurationPath W])
      else (vlog verbose (Println [S ''Using config from STDIN'']), [''stdin:'']))"

text \<open>Lines 274-295: \<open>config.json\<close> of the working directory, else \<open>envOrStdin\<close>.\<close>

definition defaultConfig :: "world \<Rightarrow> bool \<Rightarrow> event list \<times> path list" where
  "defaultConfig W verbose =
     (case os_Getwd W of
        Inl err \<Rightarrow> envOrStdin W verbose
      | Inr workingDir \<Rightarrow>
          (if fileExists W (filepath_Join W workingDir ''config.json'') then
             (Println [S ''workingDir: '', S workingDir]
                # vlog verbose
                    (Println [S ''Using default config: '',
                              S (filepath_Join W workingDir ''config.json'')]),
              [filepath_Join W workingDir ''config.json''])
           else
             (case envOrStdin W verbose of
                (tr, files) \<Rightarrow> (Println [S ''workingDir: '', S workingDir] # tr, files))))"

text \<open>
  \<open>getConfigFilePath\<close> takes the value of the package-level \<open>configFiles\<close> and returns
  the resolved sources together with the value \<open>configFiles\<close> has afterwards.
\<close>

definition getConfigFilePath ::
  "world \<Rightarrow> flags \<Rightarrow> bool \<Rightarrow> path list \<Rightarrow> event list \<times> (path list \<times> path list) outcome" where
  "getConfigFilePath W F verbose cf =
     (case scanDirs W F verbose cf of
        (tr, Exit code) \<Rightarrow> (tr, Exit code)
      | (tr, Ret cf') \<Rightarrow>
          (if length cf' > 0 then (tr, Ret (cf', cf'))
           else (case defaultConfig W verbose of
                   (tr', files) \<Rightarrow> (tr @ tr', Ret (files, cf')))))"

text \<open>
  Two calls in a row, as \<open>executeRun\<close> makes them (line 307 through \<open>startXray\<close>, then
  line 102): the second call starts from the \<open>configFiles\<close> the first one left. The
  result is what the first and what the second call returned.
\<close>

definition getConfigFilePath_twice ::
  "world \<Rightarrow> flags \<Rightarrow> bool \<Rightarrow> path list \<Rightarrow> (path list \<times> path list) outcome" where
  "getConfigFilePath_twice W F verbose cf =
     (case snd (getConfigFilePath W F verbose cf) of
        Exit code \<Rightarrow> Exit code
      | Ret (first, cf') \<Rightarrow>
          (case snd (getConfigFilePath W F verbose cf') of
             Exit code \<Rightarrow> Exit code
           | Ret (second, cf'') \<Rightarrow> Ret (first, second)))"

subsection \<open>Building the server (lines 298-322)\<close>

definition getConfigFormat :: "world \<Rightarrow> flags \<Rightarrow> string" where
  "getConfigFormat W F =
     (if core_GetFormatByExtension W (format F) = [] then ''auto''
      else core_GetFormatByExtension W (format F))"

text \<open>
  \<open>startXray\<close> returns the error or the server it built, and the value of \<open>configFiles\<close>
  afterwards.
\<close>

definition startXray ::
  "world \<Rightarrow> flags \<Rightarrow> path list \<Rightarrow> event list \<times> ((error + server) \<times> path list) outcome" where
  "startXray W F cf =
     (case getConfigFilePath W F True cf of
        (tr, Exit code) \<Rightarrow> (tr, Exit code)
      | (tr, Ret (files, cf')) \<Rightarrow>
          (case core_LoadConfig W (getConfigFormat W F) files of
             Inl err \<Rightarrow>
               (tr @ [CallLoadConfig (getConfigFormat W F) files],
                Ret (Inl (FailedToLoad files err), cf'))
           | Inr c \<Rightarrow>
               (case core_New W c of
                  Inl err \<Rightarrow>
                    (tr @ [CallLoadConfig (getConfigFormat W F) files, CallNew c],
                     Ret (Inl (FailedToCreate err), cf'))
                | Inr srv \<Rightarrow>
                    (tr @ [CallLoadConfig (getConfigFormat W F) files, CallNew c],
                     Ret (Inr srv, cf')))))"

subsection \<open>Dumping the merged configuration (lines 212-222)\<close>

definition dumpConfig :: "world \<Rightarrow> flags \<Rightarrow> path list \<Rightarrow> event list \<times> int outcome" where
  "dumpConfig W F cf =
     (case getConfigFilePath W F False cf of
        (tr, Exit code) \<Rightarrow> (tr, Exit code)
      | (tr, Ret (files, cf')) \<Rightarrow>
          (case core_GetMergedConfig W files of
             Inl err \<Rightarrow> (tr @ [CallGetMergedConfig files, Println [E err]], Ret 23)
           | Inr c \<Rightarrow> (tr @ [CallGetMergedConfig files, Print [S c]], Ret 0)))"

subsection \<open>The file watcher (lines 161-210)\<close>

text \<open>The loop of lines 168-184; it returns the paths the watcher accepted.\<close>

fun watchFiles :: "world \<Rightarrow> path list \<Rightarrow> event list \<times> path list" where
  "watchFiles W [] = ([], [])"
| "watchFiles W (file # files) =
     (case watchFiles W files of
        (tr, ws) \<Rightarrow>
          (if file \<noteq> ''stdin:'' then
             (case filepath_Abs W file of
                Inl err \<Rightarrow>
                  (Println [S ''Error getting absolute path for'', S file, S '':'', E err] # tr, ws)
              | Inr absPath \<Rightarrow>
                  (case watcher_Add W absPath of
                     Some err \<Rightarrow>
                       (Println [S ''Error watching'', S absPath, S '':'', E err] # tr, ws)
                   | None \<Rightarrow>
                       (Println [S ''Watching config file:'', S absPath] # tr, absPath # ws)))
           else (tr, ws)))"

definition startFileWatcher :: "world \<Rightarrow> path list \<Rightarrow> event list \<times> (error + path list)" where
  "startFileWatcher W files =
     (case fsnotify_NewWatcher W of
        Some err \<Rightarrow> ([], Inl err)
      | None \<Rightarrow> (case watchFiles W files of (tr, ws) \<Rightarrow> (tr, Inr ws)))"

text \<open>
  An event of fsnotify: the name of the file and the operations, a bit mask of 32 bits
  with \<open>Create\<close> at bit 0 and \<open>Write\<close> at bit 1.
\<close>

type_synonym Op = "32 word"

definition fsnotify_Create :: Op where
  "fsnotify_Create = 1"

definition fsnotify_Write :: Op where
  "fsnotify_Write = 2"

definition fsnotify_Remove :: Op where
  "fsnotify_Remove = 4"

definition fsnotify_Rename :: Op where
  "fsnotify_Rename = 8"

definition fsnotify_Chmod :: Op where
  "fsnotify_Chmod = 16"

record fsevent =
  Name :: string
  Op :: Op

text \<open>
  What one \<open>select\<close> of the goroutine of lines 187-207 receives: an event, the closing of
  the event channel, an error, or the closing of the error channel.
\<close>

datatype received = FromEvents fsevent | EventsClosed | FromErrors error | ErrorsClosed

definition reacts :: "fsevent \<Rightarrow> bool" where
  "reacts ev = (Op ev AND (fsnotify_Write OR fsnotify_Create) \<noteq> 0)"

fun watchLoop :: "received list \<Rightarrow> event list" where
  "watchLoop [] = []"
| "watchLoop (FromEvents ev # rs) =
     (if reacts ev then [Println [S ''Config file changed:'', S (Name ev)], SendRestart]
      else [])
     @ watchLoop rs"
| "watchLoop (EventsClosed # rs) = []"
| "watchLoop (FromErrors err # rs) = Println [S ''File watcher error:'', E err] # watchLoop rs"
| "watchLoop (ErrorsClosed # rs) = []"

subsection \<open>The command (lines 69-159)\<close>

text \<open>
  The variables that live as long as the process: \<open>server\<close> of \<open>executeRun\<close>, the
  package-level \<open>configFiles\<close>, and the watcher (the paths it watches, or nothing when
  it could not be started).
\<close>

record state =
  server :: server
  configFiles :: "path list"
  watcher :: "path list option"

text \<open>A call of \<open>server.Close()\<close>, with the line that is logged when it fails.\<close>

definition closeServer :: "world \<Rightarrow> server \<Rightarrow> string \<Rightarrow> event list" where
  "closeServer W srv msg =
     CallClose srv
       # (case server_Close W srv of Some err \<Rightarrow> [Println [S msg, E err]] | None \<Rightarrow> [])"

text \<open>Lines 102-107 and 144: the watcher is started on the resolved files.\<close>

definition watchConfig :: "world \<Rightarrow> flags \<Rightarrow> server \<Rightarrow> path list \<Rightarrow> event list \<times> state outcome" where
  "watchConfig W F srv cf =
     (case getConfigFilePath W F True cf of
        (tr, Exit code) \<Rightarrow> (tr, Exit code)
      | (tr, Ret (files, cf')) \<Rightarrow>
          (case startFileWatcher W files of
             (tr', Inl err) \<Rightarrow>
               (tr @ tr'
                  @ [Println [S ''Warning: Failed to start file watcher:'', E err],
                     Println [S ''Config file changes will not trigger automatic restart''],
                     Println [S ''Xray started successfully. Press Ctrl+C to stop.'']],
                Ret \<lparr>server = srv, configFiles = cf', watcher = None\<rparr>)
           | (tr', Inr ws) \<Rightarrow>
               (tr @ tr' @ [Println [S ''Xray started successfully. Press Ctrl+C to stop.'']],
                Ret \<lparr>server = srv, configFiles = cf', watcher = Some ws\<rparr>)))"

text \<open>
  Lines 69-144, up to the point where the process waits for signals: the process has
  exited, or it runs in the returned state. The change of the logger before the dump
  and the garbage collection after the start leave no event.
\<close>

definition executeRun :: "world \<Rightarrow> flags \<Rightarrow> path list \<Rightarrow> event list \<times> state outcome" where
  "executeRun W F cf =
     (if dump F then
        (case dumpConfig W F cf of
           (tr, Exit code) \<Rightarrow> (tr, Exit code)
         | (tr, Ret errCode) \<Rightarrow> (tr, Exit errCode))
      else
        (case startXray W F cf of
           (tr, Exit code) \<Rightarrow> (PrintVersion # tr, Exit code)
         | (tr, Ret (Inl err, cf')) \<Rightarrow>
             (PrintVersion # tr @ [Println [S ''Failed to start:'', E err]], Exit 23)
         | (tr, Ret (Inr srv, cf')) \<Rightarrow>
             (if test F then (PrintVersion # tr @ [Println [S ''Configuration OK.'']], Exit 0)
              else
                (case server_Start W srv of
                   Some err \<Rightarrow>
                     (PrintVersion # tr @ [CallStart srv, Println [S ''Failed to start:'', E err]],
                      Exit (- 1))
                 | None \<Rightarrow>
                     (case watchConfig W F srv cf' of
                        (tr', r) \<Rightarrow> (PrintVersion # tr @ [CallStart srv] @ tr', r))))))"

text \<open>
  One turn of the goroutine of lines 110-138, after a value arrived on \<open>restartChan\<close>.
  The result says which way the turn ended: at the end of the body, or at one of the
  two \<open>continue\<close> statements.
\<close>

datatype swap_result = Swapped | BuildFailed error | StartFailed error

definition reloadStep ::
  "world \<Rightarrow> flags \<Rightarrow> state \<Rightarrow> event list \<times> (swap_result \<times> state) outcome" where
  "reloadStep W F s =
     (case startXray W F (configFiles s) of
        (tr, Exit code) \<Rightarrow>
          (Println [S ''[Auto Restart] Restarting Xray due to config change...'']
             # closeServer W (server s) ''[Auto Restart] Error closing server:'' @ tr,
           Exit code)
      | (tr, Ret (Inl err, cf')) \<Rightarrow>
          (Println [S ''[Auto Restart] Restarting Xray due to config change...'']
             # closeServer W (server s) ''[Auto Restart] Error closing server:'' @ tr
             @ [Println [S ''[Auto Restart] Failed to load new config:'', E err],
                Println [S ''[Auto Restart] Keeping current server running'']],
           Ret (BuildFailed err, s\<lparr>configFiles := cf'\<rparr>))
      | (tr, Ret (Inr newServer, cf')) \<Rightarrow>
          (case server_Start W newServer of
             Some err \<Rightarrow>
               (Println [S ''[Auto Restart] Restarting Xray due to config change...'']
                  # closeServer W (server s) ''[Auto Restart] Error closing server:'' @ tr
                  @ [CallStart newServer,
                     Println [S ''[Auto Restart] Failed to start new server:'', E err],
                     Println [S ''[Auto Restart] Keeping current server running'']],
                Ret (StartFailed err, s\<lparr>configFiles := cf'\<rparr>))
           | None \<Rightarrow>
               (Println [S ''[Auto Restart] Restarting Xray due to config change...'']
                  # closeServer W (server s) ''[Auto Restart] Error closing server:'' @ tr
                  @ [CallStart newServer,
                     Println [S ''[Auto Restart] Xray restarted successfully with new config'']],
                Ret (Swapped, s\<lparr>server := newServer, configFiles := cf'\<rparr>))))"

subsection \<open>Which servers are active\<close>



text \<open>The calls of the engine among the events.\<close>

fun engineCall :: "event \<Rightarrow> bool" where
  "engineCall (CallGetMergedConfig files) = True"
| "engineCall (CallLoadConfig fmt files) = True"
| "engineCall (CallNew c) = True"
| "engineCall (CallStart h) = True"
| "engineCall (CallClose h) = True"
| "engineCall e = False"

subsection \<open>Concrete worlds\<close>

text \<open>
  The inputs at which the theorems below are evaluated. \<open>joinSlash\<close> is what
  \<open>path.Join\<close> and \<open>filepath.Join\<close> answer for a clean directory and a plain name.
\<close>

definition joinSlash :: "path \<Rightarrow> string \<Rightarrow> path" where
  "joinSlash d f = d @ ''/'' @ f"

definition noEntry :: error where
  "noEntry = External ''no such file or directory''"

text \<open>
  Nothing exists on the file system, the environment names no directory, the working
  directory is \<open>/w\<close>, the configuration files merge to \<open>x=1\<close>, and the engine builds
  server 1 from that configuration and server 2 from any other.
\<close>

definition bareWorld :: world where
  "bareWorld =
     \<lparr>os_Stat = (\<lambda>p. Inl noEntry),
      os_ReadDir = (\<lambda>p. Inl noEntry),
      os_Getwd = Inr ''/w'',
      path_Join = joinSlash,
      filepath_Join = joinSlash,
      filepath_Abs = (\<lambda>p. Inr p),
      platform_GetConfDirPath = [],
      platform_GetConfigurationPath = ''/bin/config.json'',
      core_GetFormatByExtension = (\<lambda>ext. if ext = ''json'' then ''json'' else []),
      core_GetMergedConfig = (\<lambda>files. Inr ''x=1''),
      core_LoadConfig = (\<lambda>fmt files. Inr ''x=1''),
      core_New = (\<lambda>c. if c = ''x=1'' then Inr (Server 1) else Inr (Server 2)),
      server_Start = (\<lambda>h. None),
      server_Close = (\<lambda>h. None),
      fsnotify_NewWatcher = None,
      watcher_Add = (\<lambda>p. None)\<rparr>"

text \<open>The directory \<open>d\<close> holds \<open>a.json\<close> and \<open>notes.txt\<close>.\<close>

definition dirWorld :: world where
  "dirWorld =
     bareWorld
       \<lparr>os_Stat := (\<lambda>p. if p = ''d'' then Inr True else Inl noEntry),
        os_ReadDir := (\<lambda>p. if p = ''d'' then Inr [''a.json'', ''notes.txt''] else Inl noEntry)\<rparr>"

text \<open>The directory \<open>d\<close> exists and cannot be listed.\<close>

definition lockedWorld :: world where
  "lockedWorld =
     bareWorld
       \<lparr>os_Stat := (\<lambda>p. if p = ''d'' then Inr True else Inl noEntry),
        os_ReadDir := (\<lambda>p. Inl (External ''permission denied''))\<rparr>"

text \<open>
  \<open>config.json\<close> of the working directory is a directory, and so is the path of the
  environment.
\<close>

definition dirNamedConfigWorld :: world where
  "dirNamedConfigWorld =
     bareWorld
       \<lparr>os_Stat :=
          (\<lambda>p. if p = ''/w/config.json'' \<or> p = ''/bin/config.json'' then Inr True
               else Inl noEntry)\<rparr>"

text \<open>The configuration files have been edited and merge to \<open>x=2\<close>.\<close>

definition editedWorld :: world where
  "editedWorld = bareWorld\<lparr>core_LoadConfig := (\<lambda>fmt files. Inr ''x=2'')\<rparr>"

text \<open>The engine cannot load, cannot build, cannot start.\<close>

definition loadFailWorld :: world where
  "loadFailWorld = bareWorld\<lparr>core_LoadConfig := (\<lambda>fmt files. Inl (External ''invalid character''))\<rparr>"

definition buildFailWorld :: world where
  "buildFailWorld = bareWorld\<lparr>core_New := (\<lambda>c. Inl (External ''unknown protocol''))\<rparr>"

definition startFailWorld :: world where
  "startFailWorld = bareWorld\<lparr>server_Start := (\<lambda>h. Some (External ''address already in use''))\<rparr>"

text \<open>The loader knows the format \<open>auto\<close> and no other.\<close>

definition autoOnlyWorld :: world where
  "autoOnlyWorld =
     bareWorld
       \<lparr>core_LoadConfig :=
          (\<lambda>fmt files. if fmt = ''auto'' then Inr ''x=1'' else Inl (External ''unknown format''))\<rparr>"

definition plainFlags :: flags where
  "plainFlags = \<lparr>configDir = [], dump = False, test = False, format = ''auto''\<rparr>"

definition dirFlags :: flags where
  "dirFlags = plainFlags\<lparr>configDir := ''d''\<rparr>"

definition runningState :: state where
  "runningState = \<lparr>server = Server 1, configFiles = [''x.json''], watcher = Some [''x.json'']\<rparr>"

section \<open>Properties\<close>

subsection \<open>Facts about the locator\<close>

lemma scanConfs_append:
  "scanConfs W d names cf = cf @ map (path_Join W d) (filter matchRegepxByFormat names)"
  by (induction names arbitrary: cf) (simp_all add: Set_arg_def)

lemma scanDirs_none:
  "\<not> dirExists W (configDir F) \<Longrightarrow> \<not> dirExists W (platform_GetConfDirPath W)
   \<Longrightarrow> scanDirs W F verbose cf = ([], Ret cf)"
  by (simp add: scanDirs_def)

lemma dirExists_empty: "dirExists W [] = False"
  by (simp add: dirExists_def)

lemma snd_envOrStdin:
  "snd (envOrStdin W verbose) =
     (if fileExists W (platform_GetConfigurationPath W) then [platform_GetConfigurationPath W]
      else [''stdin:''])"
  by (simp add: envOrStdin_def)

lemma snd_defaultConfig_no_cwd_file:
  "(\<And>wd. os_Getwd W = Inr wd \<Longrightarrow> \<not> fileExists W (filepath_Join W wd ''config.json''))
   \<Longrightarrow> snd (defaultConfig W verbose) = snd (envOrStdin W verbose)"
  by (auto simp: defaultConfig_def split: sum.splits prod.splits)

lemma snd_getConfigFilePath_default:
  "scanDirs W F verbose cf = (tr, Ret []) \<Longrightarrow>
   snd (getConfigFilePath W F verbose cf) = Ret (snd (defaultConfig W verbose), [])"
  by (simp add: getConfigFilePath_def split: prod.splits)

lemma bare_facts:
  "dirExists bareWorld p = False" "fileExists bareWorld p = False"
  "os_Getwd bareWorld = Inr ''/w''"
  by (simp_all add: bareWorld_def dirExists_def fileExists_def)

subsection \<open>The claims\<close>

text \<open>
  C8. If no configuration files and no configuration directory are given on the command
  line, the directory and the file named by the environment do not exist, and the
  working directory has no \<open>config.json\<close>, then \<open>getConfigFilePath\<close> returns the list
  whose only element is the standard-input sentinel \<open>stdin:\<close>.
\<close>

theorem C8_stdin_fallback:
  assumes "cf = []"
    and "configDir F = []"
    and "\<not> dirExists W (platform_GetConfDirPath W)"
    and "\<not> fileExists W (platform_GetConfigurationPath W)"
    and "\<forall>wd. os_Getwd W = Inr wd \<longrightarrow> \<not> fileExists W (filepath_Join W wd ''config.json'')"
  shows "snd (getConfigFilePath W F verbose cf) = Ret ([''stdin:''], [])"
proof -
  have "scanDirs W F verbose cf = ([], Ret [])"
    using assms(1-3) by (simp add: scanDirs_none dirExists_empty)
  then have "snd (getConfigFilePath W F verbose cf) = Ret (snd (defaultConfig W verbose), [])"
    by (rule snd_getConfigFilePath_default)
  moreover have "snd (defaultConfig W verbose) = snd (envOrStdin W verbose)"
    using assms(5) by (intro snd_defaultConfig_no_cwd_file) simp
  moreover have "snd (envOrStdin W verbose) = [''stdin:'']"
    using assms(4) by (simp add: snd_envOrStdin)
  ultimately show ?thesis by simp
qed

theorem C8_stdin_fallback_witness:
  "snd (getConfigFilePath bareWorld plainFlags True []) = Ret ([''stdin:''], [])"
  using C8_stdin_fallback [of "[]" plainFlags bareWorld True]
  by (simp add: bare_facts plainFlags_def)

lemma dirNamedConfig_facts:
  "dirExists dirNamedConfigWorld [] = False"
  "os_Getwd dirNamedConfigWorld = Inr ''/w''"
  "platform_GetConfDirPath dirNamedConfigWorld = []"
  "platform_GetConfigurationPath dirNamedConfigWorld = ''/bin/config.json''"
  "filepath_Join dirNamedConfigWorld ''/w'' ''config.json'' = ''/w/config.json''"
  "os_Stat dirNamedConfigWorld ''/w/config.json'' = Inr True"
  "os_Stat dirNamedConfigWorld ''/bin/config.json'' = Inr True"
  by (simp_all add: dirNamedConfigWorld_def bareWorld_def dirExists_def joinSlash_def)

text \<open>
  C9. \<open>fileExists\<close> is false for a path whose stat reports a directory. So when nothing
  was resolved from the command line or a directory, and \<open>config.json\<close> of the working
  directory is a directory, resolution goes on to the path of the environment and to
  standard input; and when the path of the environment is a directory (and the working
  directory has no file \<open>config.json\<close>), the result is standard input.
\<close>

theorem C9_directory_falls_through:
  "(os_Stat W p = Inr True \<longrightarrow> fileExists W p = False)
   \<and> (cf = [] \<and> \<not> dirExists W (configDir F) \<and> \<not> dirExists W (platform_GetConfDirPath W)
        \<and> os_Getwd W = Inr wd \<and> os_Stat W (filepath_Join W wd ''config.json'') = Inr True
      \<longrightarrow> snd (getConfigFilePath W F verbose cf) =
            Ret (if fileExists W (platform_GetConfigurationPath W)
                 then [platform_GetConfigurationPath W] else [''stdin:''], []))
   \<and> (cf = [] \<and> \<not> dirExists W (configDir F) \<and> \<not> dirExists W (platform_GetConfDirPath W)
        \<and> os_Getwd W = Inr wd \<and> \<not> fileExists W (filepath_Join W wd ''config.json'')
        \<and> os_Stat W (platform_GetConfigurationPath W) = Inr True
      \<longrightarrow> snd (getConfigFilePath W F verbose cf) = Ret ([''stdin:''], []))"
proof (intro conjI impI)
  assume "os_Stat W p = Inr True"
  then show "fileExists W p = False" by (simp add: fileExists_def)
next
  assume a: "cf = [] \<and> \<not> dirExists W (configDir F) \<and> \<not> dirExists W (platform_GetConfDirPath W)
        \<and> os_Getwd W = Inr wd \<and> os_Stat W (filepath_Join W wd ''config.json'') = Inr True"
  then have "scanDirs W F verbose cf = ([], Ret [])" by (simp add: scanDirs_none)
  then have "snd (getConfigFilePath W F verbose cf) = Ret (snd (defaultConfig W verbose), [])"
    by (rule snd_getConfigFilePath_default)
  moreover have "snd (defaultConfig W verbose) = snd (envOrStdin W verbose)"
    using a by (intro snd_defaultConfig_no_cwd_file) (simp add: fileExists_def)
  ultimately show "snd (getConfigFilePath W F verbose cf) =
      Ret (if fileExists W (platform_GetConfigurationPath W)
           then [platform_GetConfigurationPath W] else [''stdin:''], [])"
    by (simp add: snd_envOrStdin)
next
  assume a: "cf = [] \<and> \<not> dirExists W (configDir F) \<and> \<not> dirExists W (platform_GetConfDirPath W)
        \<and> os_Getwd W = Inr wd \<and> \<not> fileExists W (filepath_Join W wd ''config.json'')
        \<and> os_Stat W (platform_GetConfigurationPath W) = Inr True"
  then have "scanDirs W F verbose cf = ([], Ret [])" by (simp add: scanDirs_none)
  then have "snd (getConfigFilePath W F verbose cf) = Ret (snd (defaultConfig W verbose), [])"
    by (rule snd_getConfigFilePath_default)
  moreover have "snd (defaultConfig W verbose) = snd (envOrStdin W verbose)"
    using a by (intro snd_defaultConfig_no_cwd_file) simp
  moreover have "snd (envOrStdin W verbose) = [''stdin:'']"
    using a by (simp add: snd_envOrStdin fileExists_def)
  ultimately show "snd (getConfigFilePath W F verbose cf) = Ret ([''stdin:''], [])"
    by simp
qed

theorem C9_directory_falls_through_witness:
  "os_Stat dirNamedConfigWorld ''/w/config.json'' = Inr True
   \<and> fileExists dirNamedConfigWorld ''/w/config.json'' = False
   \<and> snd (getConfigFilePath dirNamedConfigWorld plainFlags True []) = Ret ([''stdin:''], [])"
  using C9_directory_falls_through
    [of dirNamedConfigWorld "''/w/config.json''" "[]" plainFlags "''/w''" True]
  by (simp add: dirNamedConfig_facts plainFlags_def fileExists_def)

subsection \<open>Directories\<close>

lemma scanDirs_arg_listed:
  "dirExists W (configDir F) \<Longrightarrow> os_ReadDir W (configDir F) = Inr names \<Longrightarrow>
   snd (scanDirs W F verbose cf) =
     Ret (cf @ map (path_Join W (configDir F)) (filter matchRegepxByFormat names))"
  by (simp add: scanDirs_def readConfDir_def scanConfs_append)

lemma snd_getConfigFilePath_files:
  "snd (scanDirs W F verbose cf) = Ret cf' \<Longrightarrow> cf' \<noteq> [] \<Longrightarrow>
   snd (getConfigFilePath W F verbose cf) = Ret (cf', cf')"
  by (cases "scanDirs W F verbose cf") (simp add: getConfigFilePath_def)

lemma matchRegepxByFormat_examples:
  "matchRegepxByFormat ''a.json''" "\<not> matchRegepxByFormat ''notes.txt''"
  by (simp_all add: matchRegepxByFormat_def hasExt_def)

lemma dirWorld_facts:
  "dirExists dirWorld ''d''"
  "os_ReadDir dirWorld ''d'' = Inr [''a.json'', ''notes.txt'']"
  "path_Join dirWorld = joinSlash"
  by (simp_all add: dirWorld_def bareWorld_def dirExists_def)

lemma dirFlags_simps: "configDir dirFlags = ''d''"
  by (simp add: dirFlags_def plainFlags_def)

lemma getConfigFilePath_dirWorld:
  "snd (getConfigFilePath dirWorld dirFlags verbose cf) =
     Ret (cf @ [''d/a.json''], cf @ [''d/a.json''])"
proof -
  have "snd (scanDirs dirWorld dirFlags verbose cf) = Ret (cf @ [''d/a.json''])"
    using scanDirs_arg_listed [of dirWorld dirFlags "[''a.json'', ''notes.txt'']" verbose cf]
    by (simp add: dirWorld_facts dirFlags_simps matchRegepxByFormat_examples joinSlash_def)
  then show ?thesis by (rule snd_getConfigFilePath_files) simp
qed

text \<open>
  C2, as stated, fails: with the directory \<open>d\<close> (holding \<open>a.json\<close>) given as \<open>-confdir\<close> and
  \<open>x.json\<close> given with \<open>-c\<close>, the resolved sources are not the matching entries of the
  directory; the explicit path is still there, in front of them.
\<close>

theorem C2_directory_alone_counterexample:
  "dirExists dirWorld (configDir dirFlags)
   \<and> snd (getConfigFilePath dirWorld dirFlags True [''x.json'']) =
       Ret ([''x.json'', ''d/a.json''], [''x.json'', ''d/a.json''])
   \<and> map (path_Join dirWorld ''d'') (filter matchRegepxByFormat [''a.json'', ''notes.txt'']) =
       [''d/a.json'']"
  by (simp add: getConfigFilePath_dirWorld dirWorld_facts dirFlags_simps
      matchRegepxByFormat_examples joinSlash_def)

lemma flagConfigFiles_append: "flagConfigFiles c vs = c @ vs"
  by (induction vs arbitrary: c) (simp_all add: Set_arg_def)

text \<open>
  C2, amended. On the first call of \<open>getConfigFilePath\<close>, when \<open>configFiles\<close> holds what
  the flags put there: if explicit paths were given with \<open>-c\<close> and \<open>-confdir\<close> names an
  existing directory that can be listed, the resolved sources are the explicit paths,
  in the order of the command line, followed by the matching entries of the directory,
  each joined to the directory, in listing order; the entries of the directory do not
  replace the explicit paths. (What a later call returns is the matter of C3.)
\<close>

theorem C2_explicit_then_directory:
  assumes "dirExists W (configDir F)"
    and "os_ReadDir W (configDir F) = Inr names"
    and "explicit \<noteq> []"
  shows "snd (getConfigFilePath W F verbose (flagConfigFiles [] explicit)) =
     Ret (explicit @ map (path_Join W (configDir F)) (filter matchRegepxByFormat names),
          explicit @ map (path_Join W (configDir F)) (filter matchRegepxByFormat names))"
proof -
  have "snd (scanDirs W F verbose explicit) =
      Ret (explicit @ map (path_Join W (configDir F)) (filter matchRegepxByFormat names))"
    using assms(1,2) by (rule scanDirs_arg_listed)
  then show ?thesis
    using assms(3) by (simp add: flagConfigFiles_append snd_getConfigFilePath_files)
qed

theorem C2_explicit_then_directory_witness:
  "snd (getConfigFilePath dirWorld dirFlags False (flagConfigFiles [] [''x.json'', ''y.json''])) =
     Ret ([''x.json'', ''y.json'', ''d/a.json''], [''x.json'', ''y.json'', ''d/a.json''])"
  using C2_explicit_then_directory [of dirWorld dirFlags "[''a.json'', ''notes.txt'']" "[''x.json'', ''y.json'']" False]
  by (simp add: dirWorld_facts dirFlags_simps matchRegepxByFormat_examples joinSlash_def)

text \<open>
  C3, at the failing input: \<open>-confdir d\<close>, no \<open>-c\<close>, the directory holding \<open>a.json\<close>. The
  first call returns the one entry of the directory; the second call, with nothing
  changed outside the program, returns it twice, because \<open>readConfDir\<close> appends to the
  package-level \<open>configFiles\<close> that the first call already filled.
\<close>

theorem C3_second_call_duplicates:
  "getConfigFilePath_twice dirWorld dirFlags True [] =
     Ret ([''d/a.json''], [''d/a.json'', ''d/a.json''])"
  by (simp add: getConfigFilePath_twice_def getConfigFilePath_dirWorld)

subsection \<open>A directory that cannot be listed\<close>

lemma readConfDir_unlisted:
  "os_ReadDir W dir = Inl err \<Longrightarrow>
   readConfDir W dir cf = ([Fatalln [E err]], Exit log_Fatalln_code)"
  by (simp add: readConfDir_def)

lemma scanDirs_unlisted:
  assumes "os_ReadDir W dir = Inl err"
    and "(dirExists W (configDir F) \<and> dir = configDir F)
       \<or> (\<not> dirExists W (configDir F) \<and> dirExists W (platform_GetConfDirPath W)
           \<and> dir = platform_GetConfDirPath W)"
  shows "\<exists>tr. scanDirs W F verbose cf = (tr @ [Fatalln [E err]], Exit 1)"
  using assms by (auto simp: scanDirs_def readConfDir_unlisted log_Fatalln_code_def)

lemma getConfigFilePath_Exit:
  "scanDirs W F verbose cf = (tr, Exit code) \<Longrightarrow>
   getConfigFilePath W F verbose cf = (tr, Exit code)"
  by (simp add: getConfigFilePath_def)

lemma scanDirs_Exit_code:
  "snd (scanDirs W F verbose cf) = Exit code \<Longrightarrow> code = 1"
  by (auto simp: scanDirs_def readConfDir_def log_Fatalln_code_def
      split: if_splits sum.splits)

lemma getConfigFilePath_Exit_code:
  "snd (getConfigFilePath W F verbose cf) = Exit code \<Longrightarrow> code = 1"
proof (cases "scanDirs W F verbose cf")
  case (Pair tr r)
  then show "snd (getConfigFilePath W F verbose cf) = Exit code \<Longrightarrow> code = 1"
    using scanDirs_Exit_code [of W F verbose cf code]
    by (cases r) (auto simp: getConfigFilePath_def split: if_splits prod.splits)
qed

lemma snd_startXray:
  "snd (startXray W F cf) =
     (case snd (getConfigFilePath W F True cf) of
        Exit code \<Rightarrow> Exit code
      | Ret (files, cf') \<Rightarrow>
          (case core_LoadConfig W (getConfigFormat W F) files of
             Inl err \<Rightarrow> Ret (Inl (FailedToLoad files err), cf')
           | Inr c \<Rightarrow>
               (case core_New W c of
                  Inl err \<Rightarrow> Ret (Inl (FailedToCreate err), cf')
                | Inr srv \<Rightarrow> Ret (Inr srv, cf'))))"
  by (simp add: startXray_def split: prod.splits outcome.splits sum.splits)

lemma snd_dumpConfig_Exit:
  "snd (getConfigFilePath W F False cf) = Exit code \<Longrightarrow> snd (dumpConfig W F cf) = Exit code"
  by (cases "getConfigFilePath W F False cf") (simp add: dumpConfig_def)

lemma lockedWorld_facts:
  "dirExists lockedWorld ''d''"
  "os_ReadDir lockedWorld p = Inl (External ''permission denied'')"
  by (simp_all add: lockedWorld_def bareWorld_def dirExists_def)

text \<open>
  C5, as stated, fails: with \<open>-confdir d\<close>, the directory existing and its listing
  refused, \<open>getConfigFilePath\<close> does not return to its caller; after the line of
  \<open>log.Fatalln\<close> the process has exited, with code 1.
\<close>

theorem C5_locator_exits_counterexample:
  "getConfigFilePath lockedWorld dirFlags True [] =
     ([Println [S ''Using confdir from arg:'', S ''d''],
       Fatalln [E (External ''permission denied'')]],
      Exit 1)"
  by (simp add: getConfigFilePath_def scanDirs_def readConfDir_def lockedWorld_facts
      dirFlags_simps vlog_def log_Fatalln_code_def)

text \<open>
  C5, amended. If the directory that is scanned (the one of \<open>-confdir\<close> when it exists,
  else the one of the environment when it exists) cannot be listed, the locator itself
  ends the process: the last event is the line of \<open>log.Fatalln\<close> with the error, the
  exit code is 1, and no caller (\<open>startXray\<close>, \<open>dumpConfig\<close>) gets a result.
\<close>

theorem C5_unlisted_directory_exits:
  assumes "os_ReadDir W dir = Inl err"
    and "(dirExists W (configDir F) \<and> dir = configDir F)
       \<or> (\<not> dirExists W (configDir F) \<and> dirExists W (platform_GetConfDirPath W)
           \<and> dir = platform_GetConfDirPath W)"
  shows "snd (getConfigFilePath W F verbose cf) = Exit 1
       \<and> last (fst (getConfigFilePath W F verbose cf)) = Fatalln [E err]
       \<and> snd (startXray W F cf) = Exit 1
       \<and> snd (dumpConfig W F cf) = Exit 1"
proof -
  have ex: "\<exists>tr. getConfigFilePath W F v cf = (tr @ [Fatalln [E err]], Exit 1)" for v
    using scanDirs_unlisted [OF assms, of v cf] by (auto dest: getConfigFilePath_Exit)
  have "snd (getConfigFilePath W F verbose cf) = Exit 1
      \<and> last (fst (getConfigFilePath W F verbose cf)) = Fatalln [E err]"
    using ex [of verbose] by auto
  moreover have "snd (startXray W F cf) = Exit 1"
    using ex [of True] by (auto simp: snd_startXray)
  moreover have "snd (dumpConfig W F cf) = Exit 1"
    using ex [of False] by (auto intro: snd_dumpConfig_Exit)
  ultimately show ?thesis by simp
qed

theorem C5_unlisted_directory_exits_witness:
  "snd (getConfigFilePath lockedWorld dirFlags False [''x.json'']) = Exit 1
   \<and> last (fst (getConfigFilePath lockedWorld dirFlags False [''x.json''])) =
       Fatalln [E (External ''permission denied'')]
   \<and> snd (startXray lockedWorld dirFlags [''x.json'']) = Exit 1
   \<and> snd (dumpConfig lockedWorld dirFlags [''x.json'']) = Exit 1"
  using C5_unlisted_directory_exits
    [of lockedWorld "''d''" "External ''permission denied''" dirFlags False "[''x.json'']"]
  by (simp add: lockedWorld_facts dirFlags_simps)

subsection \<open>Exit codes of the first start\<close>

lemma snd_executeRun:
  "\<not> dump F \<Longrightarrow>
   snd (executeRun W F cf) =
     (case snd (startXray W F cf) of
        Exit code \<Rightarrow> Exit code
      | Ret (Inl err, cf') \<Rightarrow> Exit 23
      | Ret (Inr srv, cf') \<Rightarrow>
          (if test F then Exit 0
           else (case server_Start W srv of
                   Some err \<Rightarrow> Exit (- 1)
                 | None \<Rightarrow> snd (watchConfig W F srv cf'))))"
  by (cases "startXray W F cf")
    (simp add: executeRun_def split: prod.splits outcome.splits sum.splits option.splits)

lemma plainFlags_simps:
  "configDir plainFlags = []" "dump plainFlags = False" "test plainFlags = False"
  "format plainFlags = ''auto''"
  by (simp_all add: plainFlags_def)

lemma engine_failures:
  "getConfigFilePath loadFailWorld plainFlags True [''x.json''] =
     ([], Ret ([''x.json''], [''x.json'']))"
  "getConfigFilePath buildFailWorld plainFlags True [''x.json''] =
     ([], Ret ([''x.json''], [''x.json'']))"
  "getConfigFilePath startFailWorld plainFlags True [''x.json''] =
     ([], Ret ([''x.json''], [''x.json'']))"
  "core_LoadConfig loadFailWorld fmt files = Inl (External ''invalid character'')"
  "core_LoadConfig buildFailWorld fmt files = Inr ''x=1''"
  "core_New buildFailWorld c = Inl (External ''unknown protocol'')"
  "core_LoadConfig startFailWorld fmt files = Inr ''x=1''"
  "core_New startFailWorld ''x=1'' = Inr (Server 1)"
  "server_Start startFailWorld h = Some (External ''address already in use'')"
  by (simp_all add: getConfigFilePath_def scanDirs_def dirExists_def plainFlags_def
      loadFailWorld_def buildFailWorld_def startFailWorld_def bareWorld_def)

text \<open>
  C4, as stated, fails: when the engine cannot build the server from the loaded
  configuration (\<open>core.New\<close> fails), \<open>startXray\<close> returns an error like it does for a
  configuration that cannot be loaded, and the process exits with 23, not with a code
  different from 23. And a configuration directory that cannot be listed ends the
  process with code 1, not 23.
\<close>

theorem C4_build_failure_exits_23_counterexample:
  "snd (startXray buildFailWorld plainFlags [''x.json'']) =
     Ret (Inl (FailedToCreate (External ''unknown protocol'')), [''x.json''])
   \<and> snd (executeRun buildFailWorld plainFlags [''x.json'']) = Exit 23
   \<and> snd (executeRun lockedWorld dirFlags []) = Exit 1"
proof -
  have "snd (getConfigFilePath lockedWorld dirFlags True []) = Exit 1"
    by (simp add: getConfigFilePath_def scanDirs_def readConfDir_def lockedWorld_facts
        dirFlags_simps log_Fatalln_code_def)
  then have "snd (executeRun lockedWorld dirFlags []) = Exit 1"
    by (simp add: snd_executeRun snd_startXray dirFlags_def plainFlags_def)
  then show ?thesis
    by (simp add: snd_executeRun snd_startXray engine_failures plainFlags_simps)
qed

text \<open>
  C4, amended. During the first start (without \<open>-dump\<close>): a configuration that cannot be
  loaded or merged ends the process with exit code 23, and so does a server that cannot
  be built from the loaded configuration; a built server that cannot be started (without
  \<open>-test\<close>) ends it with \<open>os.Exit(-1)\<close>, which is neither 23 nor 0; a configuration
  directory that cannot be listed ends it with code 1.
\<close>

theorem C4_exit_codes:
  assumes "\<not> dump F"
  shows
    "(snd (getConfigFilePath W F True cf) = Ret (files, cf')
        \<and> core_LoadConfig W (getConfigFormat W F) files = Inl e
      \<longrightarrow> snd (executeRun W F cf) = Exit 23)
     \<and> (snd (getConfigFilePath W F True cf) = Ret (files, cf')
        \<and> core_LoadConfig W (getConfigFormat W F) files = Inr c \<and> core_New W c = Inl e
      \<longrightarrow> snd (executeRun W F cf) = Exit 23)
     \<and> (snd (getConfigFilePath W F True cf) = Ret (files, cf')
        \<and> core_LoadConfig W (getConfigFormat W F) files = Inr c \<and> core_New W c = Inr srv
        \<and> \<not> test F \<and> server_Start W srv = Some e
      \<longrightarrow> snd (executeRun W F cf) = Exit (- 1))
     \<and> (snd (getConfigFilePath W F True cf) = Exit code
      \<longrightarrow> snd (executeRun W F cf) = Exit 1)"
proof (intro conjI impI)
  assume "snd (getConfigFilePath W F True cf) = Ret (files, cf')
        \<and> core_LoadConfig W (getConfigFormat W F) files = Inl e"
  then show "snd (executeRun W F cf) = Exit 23"
    using assms by (simp add: snd_executeRun snd_startXray)
next
  assume "snd (getConfigFilePath W F True cf) = Ret (files, cf')
        \<and> core_LoadConfig W (getConfigFormat W F) files = Inr c \<and> core_New W c = Inl e"
  then show "snd (executeRun W F cf) = Exit 23"
    using assms by (simp add: snd_executeRun snd_startXray)
next
  assume "snd (getConfigFilePath W F True cf) = Ret (files, cf')
        \<and> core_LoadConfig W (getConfigFormat W F) files = Inr c \<and> core_New W c = Inr srv
        \<and> \<not> test F \<and> server_Start W srv = Some e"
  then show "snd (executeRun W F cf) = Exit (- 1)"
    using assms by (simp add: snd_executeRun snd_startXray)
next
  assume a: "snd (getConfigFilePath W F True cf) = Exit code"
  then have "code = 1" by (rule getConfigFilePath_Exit_code)
  with a show "snd (executeRun W F cf) = Exit 1"
    using assms by (simp add: snd_executeRun snd_startXray)
qed

theorem C4_exit_codes_witness:
  "snd (executeRun loadFailWorld plainFlags [''x.json'']) = Exit 23
   \<and> snd (executeRun buildFailWorld plainFlags [''x.json'']) = Exit 23
   \<and> snd (executeRun startFailWorld plainFlags [''x.json'']) = Exit (- 1)
   \<and> snd (executeRun lockedWorld dirFlags [''x.json'']) = Exit 1"
proof -
  have "snd (getConfigFilePath lockedWorld dirFlags True [''x.json'']) = Exit 1"
    by (simp add: getConfigFilePath_def scanDirs_def readConfDir_def lockedWorld_facts
        dirFlags_simps log_Fatalln_code_def)
  then have "snd (executeRun lockedWorld dirFlags [''x.json'']) = Exit 1"
    using C4_exit_codes [of dirFlags lockedWorld "[''x.json'']" _ _ _ _ _ 1]
    by (simp add: dirFlags_def plainFlags_def)
  moreover have "snd (executeRun loadFailWorld plainFlags [''x.json'']) = Exit 23"
    using C4_exit_codes [of plainFlags loadFailWorld "[''x.json'']" "[''x.json'']"
        "[''x.json'']" "External ''invalid character''"]
    by (simp add: engine_failures plainFlags_simps)
  moreover have "snd (executeRun buildFailWorld plainFlags [''x.json'']) = Exit 23"
    using C4_exit_codes [of plainFlags buildFailWorld "[''x.json'']" "[''x.json'']"
        "[''x.json'']" "External ''unknown protocol''" "''x=1''"]
    by (simp add: engine_failures plainFlags_simps)
  moreover have "snd (executeRun startFailWorld plainFlags [''x.json'']) = Exit (- 1)"
    using C4_exit_codes [of plainFlags startFailWorld "[''x.json'']" "[''x.json'']"
        "[''x.json'']" "External ''address already in use''" "''x=1''" "Server 1"]
    by (simp add: engine_failures plainFlags_simps)
  ultimately show ?thesis by simp
qed

subsection \<open>The events of the program\<close>

lemma no_calls_getConfigFilePath:
  "filter engineCall (fst (getConfigFilePath W F verbose cf)) = []"
  by (auto simp: getConfigFilePath_def scanDirs_def readConfDir_def defaultConfig_def
      envOrStdin_def vlog_def split: prod.splits outcome.splits sum.splits if_splits)



lemma fst_startXray:
  "fst (startXray W F cf) =
     fst (getConfigFilePath W F True cf)
     @ (case snd (getConfigFilePath W F True cf) of
          Exit code \<Rightarrow> []
        | Ret (files, cf') \<Rightarrow>
            CallLoadConfig (getConfigFormat W F) files
              # (case core_LoadConfig W (getConfigFormat W F) files of
                   Inl err \<Rightarrow> []
                 | Inr c \<Rightarrow> [CallNew c]))"
  by (simp add: startXray_def split: prod.splits outcome.splits sum.splits)

subsection \<open>The format\<close>

text \<open>
  C10. The format that reaches the loader is the value of \<open>-format\<close> mapped through
  \<open>core.GetFormatByExtension\<close>, and \<open>auto\<close> where that lookup answers the empty string
  (this is \<open>getConfigFormat\<close>). Once the sources are resolved, what \<open>startXray\<close> returns
  is what the loader answers for that format and these sources (and then the builder),
  the one call of the loader in the events carries that format, and no flag value
  leads to an error or an exit of its own.
\<close>

theorem C10_format_hint:
  "getConfigFormat W F =
     (if core_GetFormatByExtension W (format F) = [] then ''auto''
      else core_GetFormatByExtension W (format F))
   \<and> (snd (getConfigFilePath W F True cf) = Ret (files, cf')
        \<and> core_GetFormatByExtension W (format F) = []
      \<longrightarrow> snd (startXray W F cf) =
            (case core_LoadConfig W ''auto'' files of
               Inl err \<Rightarrow> Ret (Inl (FailedToLoad files err), cf')
             | Inr c \<Rightarrow>
                 (case core_New W c of
                    Inl err \<Rightarrow> Ret (Inl (FailedToCreate err), cf')
                  | Inr srv \<Rightarrow> Ret (Inr srv, cf')))
          \<and> [e \<leftarrow> fst (startXray W F cf). \<exists>fmt fs. e = CallLoadConfig fmt fs] =
              [CallLoadConfig ''auto'' files])
   \<and> (snd (getConfigFilePath W F True cf) = Ret (files, cf')
        \<and> core_GetFormatByExtension W (format F) \<noteq> []
      \<longrightarrow> snd (startXray W F cf) =
            (case core_LoadConfig W (core_GetFormatByExtension W (format F)) files of
               Inl err \<Rightarrow> Ret (Inl (FailedToLoad files err), cf')
             | Inr c \<Rightarrow>
                 (case core_New W c of
                    Inl err \<Rightarrow> Ret (Inl (FailedToCreate err), cf')
                  | Inr srv \<Rightarrow> Ret (Inr srv, cf')))
          \<and> [e \<leftarrow> fst (startXray W F cf). \<exists>fmt fs. e = CallLoadConfig fmt fs] =
              [CallLoadConfig (core_GetFormatByExtension W (format F)) files])"
proof -
  have nc: "[e \<leftarrow> tr. \<exists>fmt fs. e = CallLoadConfig fmt fs] = []"
    if "filter engineCall tr = []" for tr
    using that by (induction tr) (auto split: if_splits)
  have ev: "[e \<leftarrow> fst (startXray W F cf). \<exists>fmt fs. e = CallLoadConfig fmt fs] =
      [CallLoadConfig (getConfigFormat W F) files]"
    if "snd (getConfigFilePath W F True cf) = Ret (files, cf')"
    using that nc [OF no_calls_getConfigFilePath [of W F True cf]]
    by (simp add: fst_startXray split: sum.splits)
  show ?thesis
    by (auto simp: ev snd_startXray) (simp_all add: getConfigFormat_def)
qed

theorem C10_format_hint_witness:
  "getConfigFormat autoOnlyWorld (plainFlags\<lparr>format := ''yaml?''\<rparr>) = ''auto''
   \<and> snd (startXray autoOnlyWorld (plainFlags\<lparr>format := ''yaml?''\<rparr>) [''x.json'']) =
       Ret (Inr (Server 1), [''x.json''])
   \<and> [e \<leftarrow> fst (startXray autoOnlyWorld (plainFlags\<lparr>format := ''yaml?''\<rparr>) [''x.json'']).
        \<exists>fmt fs. e = CallLoadConfig fmt fs] =
      [CallLoadConfig ''auto'' [''x.json'']]
   \<and> snd (startXray autoOnlyWorld (plainFlags\<lparr>format := ''json''\<rparr>) [''x.json'']) =
       Ret (Inl (FailedToLoad [''x.json''] (External ''unknown format'')), [''x.json''])"
proof -
  have g: "getConfigFilePath autoOnlyWorld (plainFlags\<lparr>format := fm\<rparr>) True [''x.json''] =
      ([], Ret ([''x.json''], [''x.json'']))" for fm
    by (simp add: getConfigFilePath_def scanDirs_def dirExists_def plainFlags_def
        autoOnlyWorld_def bareWorld_def)
  have w: "core_GetFormatByExtension autoOnlyWorld ''yaml?'' = []"
    "core_GetFormatByExtension autoOnlyWorld ''json'' = ''json''"
    "core_LoadConfig autoOnlyWorld ''auto'' fs = Inr ''x=1''"
    "core_LoadConfig autoOnlyWorld ''json'' fs = Inl (External ''unknown format'')"
    "core_New autoOnlyWorld ''x=1'' = Inr (Server 1)" for fs
    by (simp_all add: autoOnlyWorld_def bareWorld_def)
  show ?thesis
    using C10_format_hint [of autoOnlyWorld "plainFlags\<lparr>format := ''yaml?''\<rparr>" "[''x.json'']"
        "[''x.json'']" "[''x.json'']"]
      C10_format_hint [of autoOnlyWorld "plainFlags\<lparr>format := ''json''\<rparr>" "[''x.json'']"
        "[''x.json'']" "[''x.json'']"]
    by (simp add: g w)
qed

subsection \<open>The watcher\<close>

lemma reacts_iff:
  "reacts ev \<longleftrightarrow> (Op ev AND fsnotify_Write \<noteq> 0 \<or> Op ev AND fsnotify_Create \<noteq> 0)"
  by (simp add: reacts_def bit.conj_disj_distrib or_eq_0_iff)

lemma count_watchLoop:
  "count_list (watchLoop rs) SendRestart =
     length (filter (\<lambda>r. case r of FromEvents ev \<Rightarrow> reacts ev | _ \<Rightarrow> False)
       (takeWhile (\<lambda>r. r \<noteq> EventsClosed \<and> r \<noteq> ErrorsClosed) rs))"
  by (induction rs rule: watchLoop.induct) auto

text \<open>
  C7. For an event that the loop of the watcher receives, one value is sent on
  \<open>restartChan\<close> when the operations of the event include \<open>Write\<close> or \<open>Create\<close>, and none
  otherwise, whatever is received afterwards; an error that is received sends nothing
  and does not end the loop; so a run of events sends as many values as it has events
  with \<open>Write\<close> or \<open>Create\<close>.
\<close>

theorem C7_one_signal_per_event:
  "count_list (watchLoop (FromEvents ev # rs)) SendRestart =
     (if Op ev AND fsnotify_Write \<noteq> 0 \<or> Op ev AND fsnotify_Create \<noteq> 0 then 1 else 0)
     + count_list (watchLoop rs) SendRestart
   \<and> count_list (watchLoop (FromErrors err # rs)) SendRestart =
       count_list (watchLoop rs) SendRestart
   \<and> count_list (watchLoop (map FromEvents evs)) SendRestart =
       length [e \<leftarrow> evs. Op e AND fsnotify_Write \<noteq> 0 \<or> Op e AND fsnotify_Create \<noteq> 0]"
proof (intro conjI)
  show "count_list (watchLoop (FromEvents ev # rs)) SendRestart =
     (if Op ev AND fsnotify_Write \<noteq> 0 \<or> Op ev AND fsnotify_Create \<noteq> 0 then 1 else 0)
     + count_list (watchLoop rs) SendRestart"
    using reacts_iff [of ev] by simp
next
  show "count_list (watchLoop (FromErrors err # rs)) SendRestart =
       count_list (watchLoop rs) SendRestart"
    by simp
next
  have "count_list (watchLoop (map FromEvents evs)) SendRestart = length (filter reacts evs)"
    by (induction evs) simp_all
  also have "filter reacts evs =
      [e \<leftarrow> evs. Op e AND fsnotify_Write \<noteq> 0 \<or> Op e AND fsnotify_Create \<noteq> 0]"
    using reacts_iff by presburger
  finally show "count_list (watchLoop (map FromEvents evs)) SendRestart =
       length [e \<leftarrow> evs. Op e AND fsnotify_Write \<noteq> 0 \<or> Op e AND fsnotify_Create \<noteq> 0]" .
qed

theorem C7_one_signal_per_event_witness:
  "count_list
     (watchLoop
        (map FromEvents
           [\<lparr>Name = ''a.json'', Op = fsnotify_Write\<rparr>,
            \<lparr>Name = ''a.json'', Op = fsnotify_Chmod\<rparr>,
            \<lparr>Name = ''a.json'', Op = fsnotify_Create OR fsnotify_Write\<rparr>,
            \<lparr>Name = ''a.json'', Op = fsnotify_Remove\<rparr>,
            \<lparr>Name = ''a.json'', Op = fsnotify_Write\<rparr>]))
     SendRestart = 3"
  using C7_one_signal_per_event
    [of _ _ _
        "[\<lparr>Name = ''a.json'', Op = fsnotify_Write\<rparr>,
          \<lparr>Name = ''a.json'', Op = fsnotify_Chmod\<rparr>,
          \<lparr>Name = ''a.json'', Op = fsnotify_Create OR fsnotify_Write\<rparr>,
          \<lparr>Name = ''a.json'', Op = fsnotify_Remove\<rparr>,
          \<lparr>Name = ''a.json'', Op = fsnotify_Write\<rparr>]"]
  by (simp add: fsnotify_Write_def fsnotify_Create_def fsnotify_Chmod_def fsnotify_Remove_def)

subsection \<open>The restart goroutine\<close>

lemma snd_reloadStep:
  "snd (reloadStep W F s) =
     (case snd (startXray W F (configFiles s)) of
        Exit code \<Rightarrow> Exit code
      | Ret (Inl err, cf') \<Rightarrow> Ret (BuildFailed err, s\<lparr>configFiles := cf'\<rparr>)
      | Ret (Inr new, cf') \<Rightarrow>
          (case server_Start W new of
             Some err \<Rightarrow> Ret (StartFailed err, s\<lparr>configFiles := cf'\<rparr>)
           | None \<Rightarrow> Ret (Swapped, s\<lparr>server := new, configFiles := cf'\<rparr>)))"
  by (cases "startXray W F (configFiles s)")
    (simp add: reloadStep_def split: prod.splits outcome.splits sum.splits option.splits)











lemma reload_worlds:
  "getConfigFilePath bareWorld plainFlags True [''x.json''] =
     ([], Ret ([''x.json''], [''x.json'']))"
  "getConfigFilePath editedWorld plainFlags True [''x.json''] =
     ([], Ret ([''x.json''], [''x.json'']))"
  "core_LoadConfig bareWorld fmt files = Inr ''x=1''"
  "core_LoadConfig editedWorld fmt files = Inr ''x=2''"
  "core_New bareWorld ''x=1'' = Inr (Server 1)"
  "core_New editedWorld ''x=2'' = Inr (Server 2)"
  "server_Start bareWorld h = None"
  "server_Start editedWorld h = None"
  "server_Close editedWorld h = None"
  "core_GetFormatByExtension editedWorld ''auto'' = []"
  by (simp_all add: getConfigFilePath_def scanDirs_def dirExists_def plainFlags_def
      editedWorld_def bareWorld_def)







text \<open>
  C6, as stated, fails: the state of the supervisor has no generation counter. The
  configuration is edited and a first turn succeeds; the edit is reverted and a second
  turn succeeds; the state then is the state before the two turns, so nothing that is
  read from the state has gone up by one with each successful turn.
\<close>

theorem C6_no_counter_counterexample:
  "snd (reloadStep editedWorld plainFlags runningState) =
     Ret (Swapped, runningState\<lparr>server := Server 2\<rparr>)
   \<and> snd (reloadStep bareWorld plainFlags (runningState\<lparr>server := Server 2\<rparr>)) =
       Ret (Swapped, runningState)
   \<and> \<not> (\<exists>gen :: state \<Rightarrow> nat.
          \<forall>W F s s'. snd (reloadStep W F s) = Ret (Swapped, s') \<longrightarrow> gen s' = gen s + 1)"
proof -
  have a: "snd (reloadStep editedWorld plainFlags runningState) =
      Ret (Swapped, runningState\<lparr>server := Server 2\<rparr>)"
    by (simp add: snd_reloadStep snd_startXray reload_worlds runningState_def)
  have b: "snd (reloadStep bareWorld plainFlags (runningState\<lparr>server := Server 2\<rparr>)) =
      Ret (Swapped, runningState)"
    by (simp add: snd_reloadStep snd_startXray reload_worlds runningState_def)
  have "False"
    if g: "\<forall>W F s s'. snd (reloadStep W F s) = Ret (Swapped, s') \<longrightarrow> gen s' = gen s + 1"
    for gen :: "state \<Rightarrow> nat"
  proof -
    have "gen (runningState\<lparr>server := Server 2\<rparr>) = gen runningState + 1"
      using g a by blast
    moreover have "gen runningState = gen (runningState\<lparr>server := Server 2\<rparr>) + 1"
      using g b by blast
    ultimately show False by simp
  qed
  then show ?thesis using a b by blast
qed

text \<open>
  C6, amended. The state of the supervisor is the variable \<open>server\<close> (with \<open>configFiles\<close>
  and the watcher), without a counter. A successful turn puts the server that
  \<open>startXray\<close> built into \<open>server\<close> and changes nothing else but \<open>configFiles\<close>; a
  failed turn leaves \<open>server\<close> and the watcher as they were.
\<close>

theorem C6_swap_replaces_server:
  "(snd (reloadStep W F s) = Ret (Swapped, s')
      \<longrightarrow> (\<exists>cf'. snd (startXray W F (configFiles s)) = Ret (Inr (server s'), cf')
            \<and> s' = s\<lparr>server := server s', configFiles := cf'\<rparr>))
   \<and> (snd (reloadStep W F s) = Ret (BuildFailed e, s')
      \<longrightarrow> server s' = server s \<and> watcher s' = watcher s)
   \<and> (snd (reloadStep W F s) = Ret (StartFailed e, s')
      \<longrightarrow> server s' = server s \<and> watcher s' = watcher s)"
  by (auto simp: snd_reloadStep split: outcome.splits prod.splits sum.splits option.splits)

theorem C6_swap_replaces_server_witness:
  "snd (reloadStep editedWorld plainFlags runningState) =
     Ret (Swapped, runningState\<lparr>server := Server 2\<rparr>)
   \<and> snd (startXray editedWorld plainFlags (configFiles runningState)) =
       Ret (Inr (Server 2), [''x.json''])
   \<and> snd (reloadStep buildFailWorld plainFlags runningState) =
       Ret (BuildFailed (FailedToCreate (External ''unknown protocol'')), runningState)
   \<and> server runningState = Server 1"
proof -
  have a: "snd (reloadStep editedWorld plainFlags runningState) =
      Ret (Swapped, runningState\<lparr>server := Server 2\<rparr>)"
    by (simp add: snd_reloadStep snd_startXray reload_worlds runningState_def)
  have b: "snd (reloadStep buildFailWorld plainFlags runningState) =
      Ret (BuildFailed (FailedToCreate (External ''unknown protocol'')), runningState)"
    by (simp add: snd_reloadStep snd_startXray engine_failures runningState_def)
  show ?thesis
    using C6_swap_replaces_server [where W = editedWorld and F = plainFlags
        and s = runningState and s' = "runningState\<lparr>server := Server 2\<rparr>"]
      C6_swap_replaces_server [where W = buildFailWorld and F = plainFlags
        and s = runningState and s' = runningState
        and e = "FailedToCreate (External ''unknown protocol'')"]
      a b
    by (auto simp: runningState_def)
qed

end
